theory Spec2Isabelle
  imports Complex_Main "HOL-Library.AList" "HOL-Library.Char_ord" "HOL-Library.List_Lexorder"
    "HOL-Library.Log_Nat"
begin

section \<open>Python's numbers\<close>

text \<open>
  The program is \<^verbatim>\<open>fitnessapp.py\<close>. Its numbers are Python floats, which are IEEE 754
  binary64 values, and small ints. A finite number is \<open>Fin m e\<close>, the value
  \<open>m * 2 ^ e\<close>; the two infinities and the not-a-number value are numbers as well.
  Every arithmetic operation computes the exact result and rounds it to the nearest
  binary64 value, a tie going to the even mantissa: \<open>double p q e\<close> is the binary64
  value nearest to \<open>p / q * 2 ^ e\<close>, with 53 bits of mantissa, the subnormal range
  below \<open>2 ^ -1022\<close>, and an infinity from \<open>2 ^ 1024\<close> on. An int is the float of the
  same value (\<open>whole\<close>), which is exact below \<open>2 ^ 53\<close>, far above every int of the
  form. A decimal literal is the float nearest to it (\<open>decimal 62 1\<close> is 6.2). The sign
  of a zero is not kept.
\<close>

datatype pyfloat = Fin int int | PInf | NInf | NaN

text \<open>The integer nearest to \<open>p / q\<close> for a positive \<open>q\<close>, a tie going to the even one.\<close>

definition rne :: "int \<Rightarrow> int \<Rightarrow> int" where
  "rne p q =
     (let d = p div q; r = p mod q
      in if 2 * r < q then d
         else if q < 2 * r then d + 1
         else if even d then d else d + 1)"

text \<open>The binary exponent of \<open>p / q\<close>: the \<open>d\<close> with \<open>2 ^ d \<le> \<bar>p\<bar> / q < 2 ^ (d + 1)\<close>.\<close>

definition ratio_exponent :: "int \<Rightarrow> int \<Rightarrow> int" where
  "ratio_exponent p q =
     (let d = bitlen \<bar>p\<bar> - bitlen q
      in if (if 0 \<le> d then q * 2 ^ nat d \<le> \<bar>p\<bar> else q \<le> \<bar>p\<bar> * 2 ^ nat (- d))
         then d else d - 1)"

definition double :: "int \<Rightarrow> int \<Rightarrow> int \<Rightarrow> pyfloat" where
  "double p q e =
     (if p = 0 then Fin 0 0
      else let u = max (e + ratio_exponent p q) (- 1022) - 52;
               m = (if u \<le> e then rne (p * 2 ^ nat (e - u)) q
                    else rne p (q * 2 ^ nat (u - e)))
           in if 971 < u \<or> (u = 971 \<and> 2 ^ 53 \<le> \<bar>m\<bar>) then (if 0 < p then PInf else NInf)
              else if m = 0 then Fin 0 0
              else if \<bar>m\<bar> = 2 ^ 53 then Fin (m div 2) (u + 1)
              else Fin m u)"

definition whole :: "int \<Rightarrow> pyfloat" where
  "whole k = double k 1 0"

definition decimal :: "int \<Rightarrow> nat \<Rightarrow> pyfloat" where
  "decimal p k = double p (10 ^ k) 0"

text \<open>\<^verbatim>\<open>x == 0\<close> and \<^verbatim>\<open>x <= 0\<close>; a not-a-number value compares false.\<close>

fun is_zero :: "pyfloat \<Rightarrow> bool" where
  "is_zero (Fin m e) = (m = 0)"
| "is_zero _ = False"

fun py_le0 :: "pyfloat \<Rightarrow> bool" where
  "py_le0 (Fin m e) = (m \<le> 0)"
| "py_le0 NInf = True"
| "py_le0 _ = False"

fun py_sign :: "pyfloat \<Rightarrow> int" where
  "py_sign (Fin m e) = sgn m"
| "py_sign PInf = 1"
| "py_sign NInf = - 1"
| "py_sign NaN = 0"

text \<open>The infinity of a sign; the sign 0 comes from infinity times zero, which is not a number.\<close>

definition inf_of :: "int \<Rightarrow> pyfloat" where
  "inf_of s = (if 0 < s then PInf else if s < 0 then NInf else NaN)"

fun py_neg :: "pyfloat \<Rightarrow> pyfloat" where
  "py_neg (Fin m e) = Fin (- m) e"
| "py_neg PInf = NInf"
| "py_neg NInf = PInf"
| "py_neg NaN = NaN"

fun py_add :: "pyfloat \<Rightarrow> pyfloat \<Rightarrow> pyfloat" where
  "py_add (Fin m1 e1) (Fin m2 e2) =
     (let e = min e1 e2 in double (m1 * 2 ^ nat (e1 - e) + m2 * 2 ^ nat (e2 - e)) 1 e)"
| "py_add NaN y = NaN"
| "py_add x NaN = NaN"
| "py_add PInf NInf = NaN"
| "py_add NInf PInf = NaN"
| "py_add PInf y = PInf"
| "py_add NInf y = NInf"
| "py_add x PInf = PInf"
| "py_add x NInf = NInf"

definition py_sub :: "pyfloat \<Rightarrow> pyfloat \<Rightarrow> pyfloat" where
  "py_sub x y = py_add x (py_neg y)"

fun py_mul :: "pyfloat \<Rightarrow> pyfloat \<Rightarrow> pyfloat" where
  "py_mul (Fin m1 e1) (Fin m2 e2) = double (m1 * m2) 1 (e1 + e2)"
| "py_mul NaN y = NaN"
| "py_mul x NaN = NaN"
| "py_mul x y = inf_of (py_sign x * py_sign y)"

text \<open>The quotient by a divisor that is not zero.\<close>

fun float_div :: "pyfloat \<Rightarrow> pyfloat \<Rightarrow> pyfloat" where
  "float_div (Fin m1 e1) (Fin m2 e2) = double (m1 * sgn m2) \<bar>m2\<bar> (e1 - e2)"
| "float_div NaN y = NaN"
| "float_div x NaN = NaN"
| "float_div (Fin m e) y = Fin 0 0"
| "float_div x (Fin m e) = inf_of (py_sign x * sgn m)"
| "float_div x y = NaN"

text \<open>
  What Python raises is a value of \<open>py_error\<close>. \<^verbatim>\<open>x / y\<close> raises on a zero divisor
  and overflows to an infinity.
\<close>

datatype py_error = KeyError | ZeroDivisionError | OverflowError | TypeError

definition py_truediv :: "pyfloat \<Rightarrow> pyfloat \<Rightarrow> py_error + pyfloat" where
  "py_truediv x y = (if is_zero y then Inl ZeroDivisionError else Inr (float_div x y))"

text \<open>
  \<^verbatim>\<open>round(x, ndigits)\<close> rounds the exact value of \<open>x\<close> to the nearest multiple of
  \<open>10 ^ -ndigits\<close>, a tie going to the even multiple, and returns the float nearest to
  that decimal. An infinity and a not-a-number value come back unchanged.
\<close>

fun py_round :: "pyfloat \<Rightarrow> nat \<Rightarrow> pyfloat" where
  "py_round (Fin m e) ndigits =
     double (if 0 \<le> e then m * 2 ^ nat e * 10 ^ ndigits
             else rne (m * 10 ^ ndigits) (2 ^ nat (- e))) (10 ^ ndigits) 0"
| "py_round x ndigits = x"

text \<open>
  Two operations of the program do not have one result on every installation, and are
  taken from a \<open>runtime\<close>. The builtin \<^verbatim>\<open>sum\<close> adds floats from 0 and from the left up
  to Python 3.11 and with a correction term from 3.12 on; the two agree on a list of at
  most one number. \<^verbatim>\<open>x ** 2\<close> on a float calls the C library's \<^verbatim>\<open>pow\<close>, which
  need not round the exact square correctly; Python raises \<^verbatim>\<open>OverflowError\<close> when the
  result of a finite \<open>x\<close> overflows, and lets it underflow. The runtime \<open>cpython\<close> adds
  from the left and rounds the exact square correctly.
\<close>

record runtime =
  rt_sum :: "pyfloat list \<Rightarrow> pyfloat"
  rt_pow2 :: "pyfloat \<Rightarrow> py_error + pyfloat"

definition left_sum :: "pyfloat list \<Rightarrow> pyfloat" where
  "left_sum xs = foldl py_add (whole 0) xs"

fun square :: "pyfloat \<Rightarrow> pyfloat" where
  "square (Fin m e) = double (m * m) 1 (2 * e)"
| "square NaN = NaN"
| "square x = PInf"

fun py_pow2 :: "pyfloat \<Rightarrow> py_error + pyfloat" where
  "py_pow2 (Fin m e) =
     (if square (Fin m e) = PInf then Inl OverflowError else Inr (square (Fin m e)))"
| "py_pow2 x = Inr (square x)"

definition cpython :: runtime where
  "cpython = \<lparr>rt_sum = left_sum, rt_pow2 = py_pow2\<rparr>"

text \<open>\<^verbatim>\<open>d.get(key, default)\<close> on a key that may be absent (\<open>None\<close> is the absent key).\<close>

definition dict_get :: "'a option \<Rightarrow> 'a \<Rightarrow> 'a" where
  "dict_get field dflt = (case field of None \<Rightarrow> dflt | Some v \<Rightarrow> v)"

section \<open>The food table\<close>

text \<open>
  \<^verbatim>\<open>FOOD_DATA\<close> maps a food name to a dict with the keys \<^verbatim>\<open>unit\<close>, \<^verbatim>\<open>cal\<close>,
  \<^verbatim>\<open>protein\<close>, \<^verbatim>\<open>carbs\<close>, \<^verbatim>\<open>fat\<close> and, for the foods measured in grams only,
  \<^verbatim>\<open>base\<close>. The running total of \<^verbatim>\<open>calculate_macros\<close> has the four nutrient keys, so
  the table's rows extend that record; \<open>base = None\<close> is a row without the key.
\<close>

record totals =
  cal :: pyfloat
  protein :: pyfloat
  carbs :: pyfloat
  fat :: pyfloat

record food_info = totals +
  unit :: string
  base :: "pyfloat option"

definition mass_food :: "pyfloat \<Rightarrow> pyfloat \<Rightarrow> pyfloat \<Rightarrow> pyfloat \<Rightarrow> pyfloat \<Rightarrow> food_info" where
  "mass_food b c p cb f =
     \<lparr>cal = c, protein = p, carbs = cb, fat = f, unit = ''g'', base = Some b\<rparr>"

definition count_food :: "pyfloat \<Rightarrow> pyfloat \<Rightarrow> pyfloat \<Rightarrow> pyfloat \<Rightarrow> food_info" where
  "count_food c p cb f =
     \<lparr>cal = c, protein = p, carbs = cb, fat = f, unit = ''count'', base = None\<rparr>"

definition FOOD_DATA :: "(string \<times> food_info) list" where
  "FOOD_DATA =
     [(''Oats'', mass_food (whole 45) (whole 170) (whole 10) (whole 28) (whole 0)),
      (''Whey Protein'', mass_food (whole 34) (whole 120) (whole 25) (decimal 25 1) (whole 0)),
      (''Skim Milk Powder'', mass_food (whole 40) (whole 160) (whole 16) (whole 18) (whole 0)),
      (''PB Powder'', mass_food (whole 16) (whole 80) (whole 7) (decimal 62 1) (whole 0)),
      (''Nuts'', mass_food (whole 15) (whole 95) (whole 2) (whole 4) (whole 9)),
      (''White Rice'', mass_food (whole 150) (whole 210) (whole 5) (whole 72) (decimal 5 1)),
      (''Tomato'', count_food (whole 20) (whole 0) (whole 0) (whole 0)),
      (''Onion'', count_food (whole 35) (whole 0) (whole 0) (whole 0)),
      (''Yogurt'', mass_food (whole 170) (whole 90) (whole 18) (whole 7) (whole 0)),
      (''Tortilla'', count_food (whole 70) (whole 5) (whole 12) (whole 2)),
      (''Soya Chunks'', mass_food (whole 30) (whole 140) (whole 30) (whole 6) (whole 1)),
      (''Whey Protein Shake'', mass_food (whole 34) (whole 120) (whole 25) (whole 2) (whole 0))]"

definition STEPS_PER_MILE :: pyfloat where
  "STEPS_PER_MILE = whole 1200"

definition CAL_PER_MILE :: pyfloat where
  "CAL_PER_MILE = whole 100"

section \<open>The calculators\<close>

text \<open>
  \<^verbatim>\<open>calculate_macros\<close> walks \<^verbatim>\<open>food_inputs.items()\<close> in the dict's order, so the
  input is the list of its pairs; a quantity is a number or \<^verbatim>\<open>None\<close>. The loop body
  is one equation per way through it: \<^verbatim>\<open>continue\<close> on a null or zero quantity, on a
  name the table lacks, then the branch on the unit. \<^verbatim>\<open>info["base"]\<close> raises
  \<^verbatim>\<open>KeyError\<close> on a row without the key and the division raises on a zero base.
\<close>

fun macros_loop :: "totals \<Rightarrow> (string \<times> pyfloat option) list \<Rightarrow> py_error + totals" where
  "macros_loop tot [] = Inr tot"
| "macros_loop tot ((food, None) # rest) = macros_loop tot rest"
| "macros_loop tot ((food, Some qty) # rest) =
     (if is_zero qty then macros_loop tot rest
      else case map_of FOOD_DATA food of
        None \<Rightarrow> macros_loop tot rest
      | Some info \<Rightarrow>
          if unit info = ''g'' then
            (case base info of
               None \<Rightarrow> Inl KeyError
             | Some b \<Rightarrow>
                 (case py_truediv qty b of
                    Inl e \<Rightarrow> Inl e
                  | Inr ratio \<Rightarrow>
                      macros_loop
                        (tot\<lparr>cal := py_add (cal tot) (py_mul (cal info) ratio),
                                protein := py_add (protein tot) (py_mul (protein info) ratio),
                                carbs := py_add (carbs tot) (py_mul (carbs info) ratio),
                                fat := py_add (fat tot) (py_mul (fat info) ratio)\<rparr>) rest))
          else if unit info = ''count'' then
            macros_loop
              (tot\<lparr>cal := py_add (cal tot) (py_mul (cal info) qty),
                      protein := py_add (protein tot) (py_mul (protein info) qty)\<rparr>) rest
          else macros_loop tot rest)"

definition calculate_macros :: "(string \<times> pyfloat option) list \<Rightarrow> py_error + totals" where
  "calculate_macros food_inputs =
     macros_loop \<lparr>cal = whole 0, protein = whole 0, carbs = whole 0, fat = whole 0\<rparr> food_inputs"

text \<open>
  \<^verbatim>\<open>calculate_bmi\<close> compares its arguments with 0 from the left, and the \<^verbatim>\<open>or\<close> stops
  at the first true comparison; comparing \<^verbatim>\<open>None\<close> with 0 raises \<^verbatim>\<open>TypeError\<close>.
\<close>

definition calculate_bmi ::
  "runtime \<Rightarrow> pyfloat option \<Rightarrow> pyfloat option \<Rightarrow> py_error + pyfloat option" where
  "calculate_bmi rt weight height_cm =
     (case weight of
        None \<Rightarrow> Inl TypeError
      | Some w \<Rightarrow>
          if py_le0 w then Inr None
          else case height_cm of
            None \<Rightarrow> Inl TypeError
          | Some h \<Rightarrow>
              if py_le0 h then Inr None
              else case py_truediv h (whole 100) of
                Inl e \<Rightarrow> Inl e
              | Inr height_m \<Rightarrow>
                  (case rt_pow2 rt height_m of
                     Inl e \<Rightarrow> Inl e
                   | Inr sq \<Rightarrow>
                       (case py_truediv w sq of
                          Inl e \<Rightarrow> Inl e
                        | Inr bmi \<Rightarrow> Inr (Some (py_round bmi 2)))))"

definition steps_to_miles_calories :: "pyfloat \<Rightarrow> py_error + pyfloat \<times> pyfloat" where
  "steps_to_miles_calories steps =
     (case py_truediv steps STEPS_PER_MILE of
        Inl e \<Rightarrow> Inl e
      | Inr miles \<Rightarrow>
          (let cal_burned = py_mul miles CAL_PER_MILE
           in Inr (py_round miles 2, py_round cal_burned 1)))"

section \<open>Diary entries and the store\<close>

text \<open>
  A diary entry is a dict read from and written to JSON. A key may be absent (the outer
  \<open>option\<close>), and a numeric value may be \<^verbatim>\<open>null\<close> (a \<open>pynum\<close>). The store
  \<^verbatim>\<open>data\<close> is a dict from date strings to entries; Python keeps a dict in insertion
  order, and \<^verbatim>\<open>data.items()\<close> walks it in that order, so the store is the list of
  its pairs. \<^verbatim>\<open>data[k] = v\<close> replaces the value of a key in place and puts a new key
  last, which is \<open>AList.update\<close>. Strings are ordered as Python orders them, character
  by character.
\<close>

type_synonym pynum = "pyfloat option"

record extra_item =
  extra_name :: "string option"
  extra_calories :: "pyfloat option"
  extra_protein :: "pyfloat option"

record entry =
  date :: "string option"
  weight :: "pynum option"
  height :: "pynum option"
  age :: "pynum option"
  bmi :: "pynum option"
  steps :: "pynum option"
  workout_notes :: "string option"
  food :: "(string \<times> pynum) list option"
  extra_food :: "extra_item list option"
  total_calories :: "pynum option"
  total_protein :: "pynum option"
  net_calories :: "pynum option"
  miles_walked :: "pynum option"
  calories_burned :: "pynum option"

type_synonym store = "(string \<times> entry) list"

definition get_entry :: "store \<Rightarrow> string \<Rightarrow> entry" where
  "get_entry data date_str =
     dict_get (map_of data date_str)
       \<lparr>date = Some date_str, weight = Some None, height = Some None, age = Some None,
        bmi = Some None, steps = Some (Some (whole 0)), workout_notes = Some [],
        food = Some [], extra_food = Some [],
        total_calories = Some (Some (whole 0)), total_protein = Some (Some (whole 0)),
        net_calories = Some (Some (whole 0)), miles_walked = None, calories_burned = None\<rparr>"

text \<open>\<^verbatim>\<open>d.update(other)\<close>: every pair of \<open>other\<close>, in its order, is stored in \<open>d\<close>.\<close>

definition dict_update :: "('k \<times> 'v) list \<Rightarrow> ('k \<times> 'v) list \<Rightarrow> ('k \<times> 'v) list" where
  "dict_update d other = fold (\<lambda>(k, v). AList.update k v) other d"

section \<open>Saving an entry\<close>

text \<open>
  The handler of the button \<^verbatim>\<open>Save Entry\<close>. Its inputs are the values of the form's
  widgets: the three meal dicts, the list of extra foods (one item per item of the
  stored entry's list, so none on a date not saved before), and the widgets keyed
  \<^verbatim>\<open>weight_input\<close>, \<^verbatim>\<open>height_input\<close>, \<^verbatim>\<open>age_input\<close>, \<^verbatim>\<open>steps_input\<close> and
  \<^verbatim>\<open>workout_notes\<close>. The weight, height and age widgets start from the stored value
  and are \<^verbatim>\<open>None\<close> while that is null and nothing is typed. The handler assigns every
  key of the entry, so the entry it stores does not depend on the one that was there.
  Writing the file is left out. \<^verbatim>\<open>sum\<close> and \<^verbatim>\<open>**\<close> are those of the runtime.
\<close>

definition save_entry ::
  "runtime \<Rightarrow> store \<Rightarrow> string \<Rightarrow> (string \<times> pynum) list \<Rightarrow>
   (string \<times> pynum) list \<Rightarrow> (string \<times> pynum) list \<Rightarrow> extra_item list \<Rightarrow>
   pynum \<Rightarrow> pynum \<Rightarrow> pynum \<Rightarrow> pyfloat \<Rightarrow> string \<Rightarrow> py_error + store" where
  "save_entry rt data selected_date_str m1 m2 m3 extra_foods
       weight_input height_input age_input steps_input notes_input =
     (let combined_food = dict_update (dict_update (dict_update [] m1) m2) m3
      in case calculate_bmi rt weight_input height_input of
           Inl e \<Rightarrow> Inl e
         | Inr bmi' \<Rightarrow>
             (case calculate_macros combined_food of
                Inl e \<Rightarrow> Inl e
              | Inr macros \<Rightarrow>
                  (let extra_cal = rt_sum rt (map (\<lambda>item. dict_get (extra_calories item) (whole 0)) extra_foods);
                       extra_prot = rt_sum rt (map (\<lambda>item. dict_get (extra_protein item) (whole 0)) extra_foods);
                       total_calories' = py_add (cal macros) extra_cal;
                       total_protein' = py_add (protein macros) extra_prot
                   in case steps_to_miles_calories steps_input of
                        Inl e \<Rightarrow> Inl e
                      | Inr (miles, cal_burned) \<Rightarrow>
                          (let net_calories' = py_sub total_calories' cal_burned
                           in Inr (AList.update selected_date_str
                                \<lparr>date = Some selected_date_str,
                                 weight = Some weight_input,
                                 height = Some height_input,
                                 age = Some age_input,
                                 bmi = Some bmi',
                                 steps = Some (Some steps_input),
                                 workout_notes = Some notes_input,
                                 food = Some combined_food,
                                 extra_food = Some extra_foods,
                                 total_calories = Some (Some (py_round total_calories' 1)),
                                 total_protein = Some (Some (py_round total_protein' 1)),
                                 net_calories = Some (Some (py_round net_calories' 1)),
                                 miles_walked = Some (Some miles),
                                 calories_burned = Some (Some (py_round cal_burned 1))\<rparr>
                                data)))))"

section \<open>The weekly report\<close>

text \<open>
  \<^verbatim>\<open>generate_weekly_report\<close> selects the entries of the store whose key lies between
  the two bounds, collects six columns from them (\<^verbatim>\<open>e['date']\<close> raises on an entry
  without the key; the other five are read with \<^verbatim>\<open>get\<close> and a default), and writes
  one table row per entry. The six parallel lists of the source are one list of
  six-tuples here. A cell is a fixed text or the text \<^verbatim>\<open>str(x)\<close> of a number, kept as
  \<open>Str x\<close>. The page layout is left out: the report is the file name and the rows
  under the header.
\<close>

datatype cell = Text string | Str pyfloat

record report =
  filename :: string
  table_rows :: "cell list list"

definition report_entries :: "store \<Rightarrow> string \<Rightarrow> string \<Rightarrow> entry list" where
  "report_entries data start_date end_date =
     [v. (k, v) \<leftarrow> data, start_date \<le> k \<and> k \<le> end_date]"

fun summary_columns ::
  "entry list \<Rightarrow> py_error + (string \<times> pynum \<times> pynum \<times> pynum \<times> pynum \<times> pynum) list" where
  "summary_columns [] = Inr []"
| "summary_columns (e # es) =
     (case date e of
        None \<Rightarrow> Inl KeyError
      | Some d \<Rightarrow>
          (case summary_columns es of
             Inl err \<Rightarrow> Inl err
           | Inr cols \<Rightarrow>
               Inr ((d, dict_get (weight e) None, dict_get (total_calories e) (Some (whole 0)),
                     dict_get (total_protein e) (Some (whole 0)),
                     dict_get (net_calories e) (Some (whole 0)),
                     dict_get (bmi e) None) # cols)))"

text \<open>Python's truth value of a number or \<^verbatim>\<open>None\<close>.\<close>

definition truthy :: "pynum \<Rightarrow> bool" where
  "truthy v = (case v of None \<Rightarrow> False | Some x \<Rightarrow> \<not> is_zero x)"

text \<open>\<^verbatim>\<open>str(v) if v else "-"\<close> and \<^verbatim>\<open>str(round(v, 1)) if v else "0"\<close>.\<close>

definition plain_cell :: "pynum \<Rightarrow> cell" where
  "plain_cell v = (case v of Some x \<Rightarrow> if truthy v then Str x else Text ''-'' | None \<Rightarrow> Text ''-'')"

definition rounded_cell :: "pynum \<Rightarrow> cell" where
  "rounded_cell v =
     (case v of Some x \<Rightarrow> if truthy v then Str (py_round x 1) else Text ''0'' | None \<Rightarrow> Text ''0'')"

definition report_row :: "string \<times> pynum \<times> pynum \<times> pynum \<times> pynum \<times> pynum \<Rightarrow> cell list" where
  "report_row = (\<lambda>(d, w, c, p, n, b).
     [Text d, plain_cell w, rounded_cell c, rounded_cell p, rounded_cell n, plain_cell b])"

definition generate_weekly_report :: "store \<Rightarrow> string \<Rightarrow> string \<Rightarrow> py_error + report option" where
  "generate_weekly_report data start_date end_date =
     (let entries = report_entries data start_date end_date
      in if entries = [] then Inr None
         else case summary_columns entries of
                Inl err \<Rightarrow> Inl err
              | Inr cols \<Rightarrow>
                  Inr (Some \<lparr>filename = ''weekly_report_'' @ start_date @ ''_to_'' @ end_date @ ''.pdf'',
                             table_rows = map report_row cols\<rparr>))"

text \<open>
  The page \<^verbatim>\<open>Weekly Report\<close> selects the dates of the trailing week itself, for its
  charts and its table: the keys of the store between the two bounds, sorted.
\<close>

definition filtered_dates :: "store \<Rightarrow> string \<Rightarrow> string \<Rightarrow> string list" where
  "filtered_dates data seven_days_ago today_str =
     sort [d \<leftarrow> map fst data. seven_days_ago \<le> d \<and> d \<le> today_str]"

section \<open>The form's dicts and a session of saves\<close>

text \<open>
  The page \<^verbatim>\<open>Enter Daily Data\<close> builds the meal dicts \<^verbatim>\<open>m1\<close>, \<^verbatim>\<open>m2\<close> and
  \<^verbatim>\<open>m3\<close> from its number widgets, one key per widget, in this order.
\<close>

definition meal1 ::
  "pyfloat \<Rightarrow> pyfloat \<Rightarrow> pyfloat \<Rightarrow> pyfloat \<Rightarrow> pyfloat \<Rightarrow> (string \<times> pynum) list" where
  "meal1 oats whey skim pb nuts =
     [(''Oats'', Some oats), (''Whey Protein'', Some whey), (''Skim Milk Powder'', Some skim),
      (''PB Powder'', Some pb), (''Nuts'', Some nuts)]"

definition meal2 ::
  "pyfloat \<Rightarrow> pyfloat \<Rightarrow> pyfloat \<Rightarrow> pyfloat \<Rightarrow> pyfloat \<Rightarrow> pyfloat \<Rightarrow> (string \<times> pynum) list" where
  "meal2 rice tomato onion yogurt tortilla soya =
     [(''White Rice'', Some rice), (''Tomato'', Some tomato), (''Onion'', Some onion),
      (''Yogurt'', Some yogurt), (''Tortilla'', Some tortilla), (''Soya Chunks'', Some soya)]"

definition meal3 :: "pyfloat \<Rightarrow> (string \<times> pynum) list" where
  "meal3 shake = [(''Whey Protein Shake'', Some shake)]"

text \<open>The three dicts of a form in which no food is entered.\<close>

definition no_meal1 :: "(string \<times> pynum) list" where
  "no_meal1 = meal1 (whole 0) (whole 0) (whole 0) (whole 0) (whole 0)"

definition no_meal2 :: "(string \<times> pynum) list" where
  "no_meal2 = meal2 (whole 0) (whole 0) (whole 0) (whole 0) (whole 0) (whole 0)"

definition no_meal3 :: "(string \<times> pynum) list" where
  "no_meal3 = meal3 (whole 0)"

text \<open>
  A session that presses \<^verbatim>\<open>Save Entry\<close> once for each date of a list, in the list's
  order, with no food, no steps, weight 70, height 170 and age 30, on the runtime
  \<open>cpython\<close>.
\<close>

fun save_days :: "store \<Rightarrow> string list \<Rightarrow> py_error + store" where
  "save_days data [] = Inr data"
| "save_days data (d # ds) =
     (case save_entry cpython data d no_meal1 no_meal2 no_meal3 []
             (Some (whole 70)) (Some (whole 170)) (Some (whole 30)) (whole 0) [] of
        Inl e \<Rightarrow> Inl e
      | Inr data' \<Rightarrow> save_days data' ds)"

section \<open>Pairs that contribute nothing\<close>

text \<open>
  The pairs the specification lets \<^verbatim>\<open>calculate_macros\<close> skip: a null quantity, a
  quantity of exactly zero, or a food name that is not a key of the table. (A pair
  whose quantity is absent is a pair the mapping does not have.)
\<close>

definition spec_skipped :: "string \<times> pynum \<Rightarrow> bool" where
  "spec_skipped p =
     ((case snd p of None \<Rightarrow> True | Some x \<Rightarrow> is_zero x) \<or> map_of FOOD_DATA (fst p) = None)"

section \<open>Signs survive the rounding\<close>






lemma STEPS_PER_MILE_value: "STEPS_PER_MILE = Fin 5277655813324800 (- 42)"
  by code_simp


lemma whole_1200: "whole 1200 = STEPS_PER_MILE"
  by (simp add: STEPS_PER_MILE_def)

lemma whole_100: "whole 100 = CAL_PER_MILE"
  by (simp add: CAL_PER_MILE_def)

lemma steps_to_miles_calories_value:
  "steps_to_miles_calories n_steps =
     Inr (py_round (float_div n_steps (whole 1200)) 2,
          py_round (py_mul (float_div n_steps (whole 1200)) (whole 100)) 1)"
  unfolding whole_1200 whole_100
  by (simp add: steps_to_miles_calories_def py_truediv_def STEPS_PER_MILE_value)

section \<open>Steps, miles and calories burned\<close>

text \<open>
  Claim C1, as the specification states it: the calories burned are the rounded miles
  times 100, rounded to 1 decimal. The code differs at 100 steps: the miles are 0.08
  and the calories burned are 8.3, where the rounded miles times 100 are 8.0.
\<close>

theorem steps_to_miles_calories_rounded_miles_counterexample:
  "steps_to_miles_calories (whole 100) = Inr (decimal 8 2, decimal 83 1) \<and>
   py_round (py_mul (decimal 8 2) (whole 100)) 1 = whole 8"
  by code_simp

text \<open>
  Claim C1, amended. For every number of steps the function returns, without an error.
  The miles are the float quotient of the steps by 1200, rounded to 2 decimals. The
  calories burned are that unrounded quotient times 100, rounded to 1 decimal.
\<close>

theorem steps_to_miles_calories_unrounded:
  "steps_to_miles_calories n_steps =
     Inr (py_round (float_div n_steps (whole 1200)) 2,
          py_round (py_mul (float_div n_steps (whole 1200)) (whole 100)) 1)"
  by (rule steps_to_miles_calories_value)




section \<open>The food table never makes the calculator fail\<close>

lemma food_data_rows:
  "list_all (\<lambda>(fname, info). unit info \<noteq> ''g'' \<or>
      (case base info of Some (Fin m e) \<Rightarrow> 0 < m | _ \<Rightarrow> False)) FOOD_DATA"
  by code_simp

lemma food_data_mass_row:
  assumes "(fname, info) \<in> set FOOD_DATA" and "unit info = ''g''"
  shows "\<exists>m e. base info = Some (Fin m e) \<and> 0 < m"
proof -
  from food_data_rows assms
  have "case base info of Some (Fin m e) \<Rightarrow> 0 < m | _ \<Rightarrow> False"
    by (auto simp: list_all_iff)
  then show ?thesis
    by (auto split: option.splits pyfloat.splits)
qed

lemma food_data_mass_base:
  assumes "map_of FOOD_DATA fname = Some info" and "unit info = ''g''"
  shows "\<exists>m e. base info = Some (Fin m e) \<and> 0 < m"
  using map_of_SomeD [OF assms(1)] assms(2) by (rule food_data_mass_row)

lemma macros_loop_returns: "\<exists>t. macros_loop tot food_inputs = Inr t"
proof (induction food_inputs arbitrary: tot)
  case Nil
  show ?case by simp
next
  case (Cons p rest)
  obtain fname q where p: "p = (fname, q)" by (cases p)
  show ?case
  proof (cases q)
    case None
    with p Cons.IH show ?thesis by simp
  next
    case (Some qty)
    show ?thesis
    proof (cases "map_of FOOD_DATA fname")
      case None
      with p Some Cons.IH show ?thesis by simp
    next
      case (Some info)
      show ?thesis
      proof (cases "unit info = ''g''")
        case True
        with Some obtain m e where b: "base info = Some (Fin m e)" "0 < m"
          using food_data_mass_base by blast
        with p \<open>q = Some qty\<close> Some True Cons.IH show ?thesis
          by (simp add: py_truediv_def)
      next
        case False
        with p \<open>q = Some qty\<close> Some Cons.IH show ?thesis by simp
      qed
    qed
  qed
qed

text \<open>
  Claim C10. \<^verbatim>\<open>calculate_macros\<close> returns totals on every mapping of food names to
  quantities: it never raises \<^verbatim>\<open>KeyError\<close> or \<^verbatim>\<open>ZeroDivisionError\<close>. The division
  is reached only under \<^verbatim>\<open>unit == "g"\<close> for a name of the table, and every such row
  of the table has a \<^verbatim>\<open>base\<close> that is a positive finite number.
\<close>

theorem calculate_macros_total:
  "(\<exists>t. calculate_macros food_inputs = Inr t) \<and>
   (\<forall>(fname, info) \<in> set FOOD_DATA.
      unit info = ''g'' \<longrightarrow> (\<exists>m e. base info = Some (Fin m e) \<and> 0 < m))"
proof
  show "\<exists>t. calculate_macros food_inputs = Inr t"
    unfolding calculate_macros_def by (rule macros_loop_returns)
  show "\<forall>(fname, info) \<in> set FOOD_DATA.
          unit info = ''g'' \<longrightarrow> (\<exists>m e. base info = Some (Fin m e) \<and> 0 < m)"
    using food_data_mass_row by blast
qed

theorem calculate_macros_total_witness:
  "calculate_macros [(''Oats'', Some (whole 90)), (''Tomato'', Some (whole 2)),
                     (''Pizza'', Some (whole 1))] =
     Inr \<lparr>cal = whole 380, protein = whole 20, carbs = whole 56, fat = whole 0\<rparr> \<and>
   (''Oats'', mass_food (whole 45) (whole 170) (whole 10) (whole 28) (whole 0)) \<in> set FOOD_DATA \<and>
   unit (mass_food (whole 45) (whole 170) (whole 10) (whole 28) (whole 0)) = ''g'' \<and>
   base (mass_food (whole 45) (whole 170) (whole 10) (whole 28) (whole 0)) =
     Some (Fin 6333186975989760 (- 47)) \<and> (0::int) < 6333186975989760"
proof -
  have mem: "(''Oats'', mass_food (whole 45) (whole 170) (whole 10) (whole 28) (whole 0)) \<in> set FOOD_DATA"
    by (simp add: FOOD_DATA_def)
  have g: "unit (mass_food (whole 45) (whole 170) (whole 10) (whole 28) (whole 0)) = ''g''"
    by (simp add: mass_food_def)
  have w: "whole 45 = Fin 6333186975989760 (- 47)"
    by code_simp
  from calculate_macros_total [of "[(''Oats'', Some (whole 90)), (''Tomato'', Some (whole 2)),
                     (''Pizza'', Some (whole 1))]"] mem g
  have "\<exists>m e. base (mass_food (whole 45) (whole 170) (whole 10) (whole 28) (whole 0)) =
          Some (Fin m e) \<and> 0 < m"
    by blast
  then have b: "base (mass_food (whole 45) (whole 170) (whole 10) (whole 28) (whole 0)) =
     Some (Fin 6333186975989760 (- 47)) \<and> (0::int) < 6333186975989760"
    by (simp add: mass_food_def w)
  have "calculate_macros [(''Oats'', Some (whole 90)), (''Tomato'', Some (whole 2)),
                     (''Pizza'', Some (whole 1))] =
          Inr \<lparr>cal = whole 380, protein = whole 20, carbs = whole 56, fat = whole 0\<rparr>"
    by code_simp
  with mem g b show ?thesis by simp
qed

section \<open>Pairs the calculator skips\<close>

lemma macros_loop_skipped:
  assumes "spec_skipped p"
  shows "macros_loop tot (p # rest) = macros_loop tot rest"
proof -
  obtain fname q where p: "p = (fname, q)" by (cases p)
  show ?thesis
  proof (cases q)
    case None
    with p show ?thesis by simp
  next
    case (Some qty)
    with assms p have "is_zero qty \<or> map_of FOOD_DATA fname = None"
      by (simp add: spec_skipped_def)
    with p Some show ?thesis by auto
  qed
qed

lemma macros_loop_cong:
  assumes "\<And>tot. macros_loop tot xs = macros_loop tot ys"
  shows "macros_loop tot (p # xs) = macros_loop tot (p # ys)"
proof -
  obtain fname q where p: "p = (fname, q)" by (cases p)
  show ?thesis
  proof (cases q)
    case None
    with p assms show ?thesis by simp
  next
    case (Some qty)
    with p assms show ?thesis
      by (simp split: option.split sum.split)
  qed
qed

lemma macros_loop_filter:
  "macros_loop tot [p \<leftarrow> food_inputs. \<not> (removed p \<and> spec_skipped p)] = macros_loop tot food_inputs"
proof (induction food_inputs arbitrary: tot)
  case Nil
  show ?case by simp
next
  case (Cons p rest)
  show ?case
  proof (cases "removed p \<and> spec_skipped p")
    case True
    then show ?thesis using Cons.IH by (simp add: macros_loop_skipped)
  next
    case False
    then have "[x \<leftarrow> p # rest. \<not> (removed x \<and> spec_skipped x)] =
               p # [x \<leftarrow> rest. \<not> (removed x \<and> spec_skipped x)]" by simp
    then show ?thesis using macros_loop_cong [OF Cons.IH] by simp
  qed
qed

lemma macros_loop_all_skipped:
  "\<forall>p \<in> set food_inputs. spec_skipped p \<Longrightarrow> macros_loop tot food_inputs = Inr tot"
  by (induction food_inputs) (simp_all add: macros_loop_skipped)

text \<open>
  Claim C8. Removing from the mapping any of the pairs whose quantity is null or exactly
  zero, or whose food name is not in the table (\<open>removed\<close> picks which of them go),
  leaves the result of \<^verbatim>\<open>calculate_macros\<close> unchanged. On the empty mapping, and on a
  mapping of such pairs only, the totals are all zero. No input raises an error.
\<close>

theorem calculate_macros_skips:
  "calculate_macros [p \<leftarrow> food_inputs. \<not> (removed p \<and> spec_skipped p)] = calculate_macros food_inputs \<and>
   ((\<forall>p \<in> set food_inputs. spec_skipped p) \<longrightarrow>
      calculate_macros food_inputs =
        Inr \<lparr>cal = whole 0, protein = whole 0, carbs = whole 0, fat = whole 0\<rparr>) \<and>
   calculate_macros [] = Inr \<lparr>cal = whole 0, protein = whole 0, carbs = whole 0, fat = whole 0\<rparr> \<and>
   (\<exists>t. calculate_macros food_inputs = Inr t)"
  unfolding calculate_macros_def
  using macros_loop_filter macros_loop_all_skipped macros_loop_returns by simp

theorem calculate_macros_skips_witness:
  "spec_skipped (''Pizza'', Some (whole 3)) \<and> spec_skipped (''Tomato'', None) \<and>
   spec_skipped (''Onion'', Some (whole 0)) \<and>
   calculate_macros [(''Pizza'', Some (whole 3)), (''Tomato'', None), (''Onion'', Some (whole 0))] =
     Inr \<lparr>cal = whole 0, protein = whole 0, carbs = whole 0, fat = whole 0\<rparr> \<and>
   calculate_macros [(''Oats'', Some (whole 90))] =
     calculate_macros [(''Pizza'', Some (whole 3)), (''Oats'', Some (whole 90)), (''Tomato'', None),
                       (''Onion'', Some (whole 0))]"
proof -
  have sk: "spec_skipped (''Pizza'', Some (whole 3))" "spec_skipped (''Tomato'', None)"
      "spec_skipped (''Onion'', Some (whole 0))"
    by code_simp+
  then have "\<forall>p \<in> set [(''Pizza'', Some (whole 3)), (''Tomato'', None), (''Onion'', Some (whole 0))].
      spec_skipped p"
    by simp
  with calculate_macros_skips [of "\<lambda>p. True"
      "[(''Pizza'', Some (whole 3)), (''Tomato'', None), (''Onion'', Some (whole 0))]"]
  have zero: "calculate_macros [(''Pizza'', Some (whole 3)), (''Tomato'', None), (''Onion'', Some (whole 0))] =
     Inr \<lparr>cal = whole 0, protein = whole 0, carbs = whole 0, fat = whole 0\<rparr>"
    by blast
  have "\<not> spec_skipped (''Oats'', Some (whole 90))"
    by code_simp
  with sk calculate_macros_skips [of "\<lambda>p. True"
      "[(''Pizza'', Some (whole 3)), (''Oats'', Some (whole 90)), (''Tomato'', None),
        (''Onion'', Some (whole 0))]"]
  have "calculate_macros [(''Oats'', Some (whole 90))] =
     calculate_macros [(''Pizza'', Some (whole 3)), (''Oats'', Some (whole 90)), (''Tomato'', None),
                       (''Onion'', Some (whole 0))]"
    by simp
  with sk zero show ?thesis by simp
qed

section \<open>A mass-based food at its base quantity\<close>

lemma food_data_base_rows:
  "list_all (\<lambda>(fname, info). unit info \<noteq> ''g'' \<or>
      (case base info of
         Some b \<Rightarrow> calculate_macros [(fname, Some b)] =
           Inr \<lparr>cal = cal info, protein = protein info, carbs = carbs info, fat = fat info\<rparr>
       | None \<Rightarrow> False)) FOOD_DATA"
  by code_simp

text \<open>
  Claim C5. For every food of the table whose unit is grams, \<^verbatim>\<open>calculate_macros\<close> on
  the mapping of that food alone, at exactly its \<^verbatim>\<open>base\<close> quantity, returns the four
  values of the food's row.
\<close>

theorem calculate_macros_base_quantity:
  assumes "map_of FOOD_DATA fname = Some info" and "unit info = ''g''"
  shows "\<exists>b. base info = Some b \<and>
           calculate_macros [(fname, Some b)] =
             Inr \<lparr>cal = cal info, protein = protein info, carbs = carbs info, fat = fat info\<rparr>"
proof -
  from assms(1) have "(fname, info) \<in> set FOOD_DATA"
    by (rule map_of_SomeD)
  with food_data_base_rows assms(2)
  have "case base info of
          Some b \<Rightarrow> calculate_macros [(fname, Some b)] =
            Inr \<lparr>cal = cal info, protein = protein info, carbs = carbs info, fat = fat info\<rparr>
        | None \<Rightarrow> False"
    by (auto simp: list_all_iff)
  then show ?thesis
    by (cases "base info") simp_all
qed

theorem calculate_macros_base_quantity_witness:
  "map_of FOOD_DATA ''PB Powder'' =
     Some (mass_food (whole 16) (whole 80) (whole 7) (decimal 62 1) (whole 0)) \<and>
   unit (mass_food (whole 16) (whole 80) (whole 7) (decimal 62 1) (whole 0)) = ''g'' \<and>
   calculate_macros [(''PB Powder'', Some (whole 16))] =
     Inr \<lparr>cal = whole 80, protein = whole 7, carbs = decimal 62 1, fat = whole 0\<rparr>"
proof -
  have row: "map_of FOOD_DATA ''PB Powder'' =
      Some (mass_food (whole 16) (whole 80) (whole 7) (decimal 62 1) (whole 0))"
    by (simp add: FOOD_DATA_def)
  have g: "unit (mass_food (whole 16) (whole 80) (whole 7) (decimal 62 1) (whole 0)) = ''g''"
    by (simp add: mass_food_def)
  from calculate_macros_base_quantity [OF row g] row g show ?thesis
    by (simp add: mass_food_def)
qed

section \<open>Count-based foods\<close>

lemma count_food_contribution:
  assumes "map_of FOOD_DATA fname = Some info" and "unit info = ''count''" and "\<not> is_zero qty"
  shows "calculate_macros [(fname, Some qty)] =
           Inr \<lparr>cal = py_add (whole 0) (py_mul (cal info) qty),
                protein = py_add (whole 0) (py_mul (protein info) qty),
                carbs = whole 0, fat = whole 0\<rparr>"
  using assms by (simp add: calculate_macros_def)

text \<open>
  Claim C6. A count-based food adds its calories and protein times the quantity, and no
  carbs and no fat. The table does not match: the row of Tortilla is count-based and
  carries 12 carbs and 2 fat, and the form's dicts with one tortilla give totals with 0
  carbs and 0 fat.
\<close>

theorem tortilla_carbs_and_fat_dropped:
  "map_of FOOD_DATA ''Tortilla'' = Some (count_food (whole 70) (whole 5) (whole 12) (whole 2)) \<and>
   unit (count_food (whole 70) (whole 5) (whole 12) (whole 2)) = ''count'' \<and>
   carbs (count_food (whole 70) (whole 5) (whole 12) (whole 2)) = whole 12 \<and>
   fat (count_food (whole 70) (whole 5) (whole 12) (whole 2)) = whole 2 \<and>
   calculate_macros
     (dict_update (dict_update (dict_update [] no_meal1)
        (meal2 (whole 0) (whole 0) (whole 0) (whole 0) (whole 1) (whole 0))) no_meal3) =
     Inr \<lparr>cal = whole 70, protein = whole 5, carbs = whole 0, fat = whole 0\<rparr>"
  by code_simp

section \<open>Body mass index\<close>






section \<open>The totals a save stores\<close>

text \<open>
  Claim C3, as the specification states it: the net calories are the stored (rounded)
  total calories minus the calories burned, rounded to 1 decimal. The code differs on
  the first save of a date with 0.25 g of PB Powder, no other food and 6 steps: the
  total before rounding is 1.25, the stored total is 1.2, the calories burned are 0.5
  and the stored net is 0.8, where 1.2 - 0.5 rounds to 0.7.
\<close>

theorem save_entry_net_counterexample:
  "map (\<lambda>(d, e). (total_calories e, calories_burned e, net_calories e))
     (projr (save_entry cpython [] ''2024-01-01''
        (meal1 (whole 0) (whole 0) (whole 0) (decimal 25 2) (whole 0)) no_meal2 no_meal3 []
        (Some (whole 70)) (Some (whole 170)) (Some (whole 30)) (whole 6) [])) =
     [(Some (Some (decimal 12 1)), Some (Some (decimal 5 1)), Some (Some (decimal 8 1)))] \<and>
   py_round (py_sub (decimal 12 1) (decimal 5 1)) 1 = decimal 7 1"
  by code_simp

text \<open>
  Claim C3, amended. On every runtime, whenever the BMI computation raises no error, a
  save returns a store that holds, under the selected date, an entry whose total
  calories are the macro calories plus the extra calories, rounded to 1 decimal, and
  whose total protein is the macro protein plus the extra protein, rounded to 1
  decimal. Its calories burned are the rounded value of the steps conversion (rounded
  once more). Its net calories are the unrounded sum of macro and extra calories minus
  the rounded calories burned of the steps conversion, rounded to 1 decimal.
\<close>

theorem save_entry_totals:
  assumes "calculate_bmi rt weight_in height_in = Inr b"
  shows "\<exists>e macros miles burned.
           calculate_macros (dict_update (dict_update (dict_update [] m1) m2) m3) = Inr macros \<and>
           steps_to_miles_calories s = Inr (miles, burned) \<and>
           save_entry rt data d m1 m2 m3 extra_foods weight_in height_in age_in s notes_in =
             Inr (AList.update d e data) \<and>
           total_calories e = Some (Some (py_round
             (py_add (cal macros)
                (rt_sum rt (map (\<lambda>item. dict_get (extra_calories item) (whole 0)) extra_foods))) 1)) \<and>
           total_protein e = Some (Some (py_round
             (py_add (protein macros)
                (rt_sum rt (map (\<lambda>item. dict_get (extra_protein item) (whole 0)) extra_foods))) 1)) \<and>
           calories_burned e = Some (Some (py_round burned 1)) \<and>
           net_calories e = Some (Some (py_round
             (py_sub
                (py_add (cal macros)
                   (rt_sum rt (map (\<lambda>item. dict_get (extra_calories item) (whole 0)) extra_foods)))
                burned) 1))"
proof -
  obtain macros where m:
    "calculate_macros (dict_update (dict_update (dict_update [] m1) m2) m3) = Inr macros"
    unfolding calculate_macros_def using macros_loop_returns by blast
  obtain miles burned where st: "steps_to_miles_calories s = Inr (miles, burned)"
    using steps_to_miles_calories_value by blast
  show ?thesis
    using assms m st
    by (auto simp add: save_entry_def Let_def intro!: exI)
qed

theorem save_entry_totals_witness:
  "calculate_bmi cpython (Some (whole 70)) (Some (whole 170)) = Inr (Some (decimal 2422 2)) \<and>
   (\<exists>e. save_entry cpython [] ''2024-01-01''
           (meal1 (whole 90) (whole 0) (whole 0) (whole 0) (whole 0)) no_meal2 no_meal3 []
           (Some (whole 70)) (Some (whole 170)) (Some (whole 30)) (whole 2400) [] =
         Inr [(''2024-01-01'', e)] \<and>
        total_calories e = Some (Some (whole 340)) \<and> total_protein e = Some (Some (whole 20)) \<and>
        calories_burned e = Some (Some (whole 200)) \<and> net_calories e = Some (Some (whole 140)))"
proof -
  let ?m1 = "meal1 (whole 90) (whole 0) (whole 0) (whole 0) (whole 0)"
  have b: "calculate_bmi cpython (Some (whole 70)) (Some (whole 170)) = Inr (Some (decimal 2422 2))"
    by code_simp
  have m: "calculate_macros (dict_update (dict_update (dict_update [] ?m1) no_meal2) no_meal3) =
     Inr \<lparr>cal = whole 340, protein = whole 20, carbs = whole 56, fat = whole 0\<rparr>"
    by code_simp
  have s: "steps_to_miles_calories (whole 2400) = Inr (whole 2, whole 200)"
    by code_simp
  have r: "py_round (py_add (whole 340) (rt_sum cpython [])) 1 = whole 340"
      "py_round (py_add (whole 20) (rt_sum cpython [])) 1 = whole 20"
      "py_round (whole 200) 1 = whole 200"
      "py_round (py_sub (py_add (whole 340) (rt_sum cpython [])) (whole 200)) 1 = whole 140"
    by code_simp+
  from save_entry_totals [OF b, where ?m1.0 = ?m1 and ?m2.0 = no_meal2 and ?m3.0 = no_meal3
      and s = "whole 2400" and data = "[]" and d = "''2024-01-01''" and extra_foods = "[]"
      and age_in = "Some (whole 30)" and notes_in = "[]"] m s r
  have "\<exists>e. save_entry cpython [] ''2024-01-01'' ?m1 no_meal2 no_meal3 []
           (Some (whole 70)) (Some (whole 170)) (Some (whole 30)) (whole 2400) [] =
         Inr [(''2024-01-01'', e)] \<and>
        total_calories e = Some (Some (whole 340)) \<and> total_protein e = Some (Some (whole 20)) \<and>
        calories_burned e = Some (Some (whole 200)) \<and> net_calories e = Some (Some (whole 140))"
    by auto
  with b show ?thesis by simp
qed

section \<open>The rows of the weekly report\<close>

lemma summary_columns_rows:
  assumes "summary_columns entries = Inr cols"
  shows "map date entries = map (Some \<circ> fst) cols \<and>
         map report_row cols =
           map (\<lambda>e. [Text (dict_get (date e) []),
                      plain_cell (dict_get (weight e) None),
                      rounded_cell (dict_get (total_calories e) (Some (whole 0))),
                      rounded_cell (dict_get (total_protein e) (Some (whole 0))),
                      rounded_cell (dict_get (net_calories e) (Some (whole 0))),
                      plain_cell (dict_get (bmi e) None)]) entries"
  using assms
proof (induction entries arbitrary: cols)
  case Nil
  then show ?case by simp
next
  case (Cons e es)
  from Cons.prems obtain d cols' where d: "date e = Some d"
    and cs: "summary_columns es = Inr cols'"
    and cols: "cols = (d, dict_get (weight e) None, dict_get (total_calories e) (Some (whole 0)),
                     dict_get (total_protein e) (Some (whole 0)),
                     dict_get (net_calories e) (Some (whole 0)),
                     dict_get (bmi e) None) # cols'"
    by (auto split: option.splits sum.splits)
  from Cons.IH [OF cs] d cols show ?case
    by (simp add: report_row_def dict_get_def)
qed

lemma whole_0_zero: "is_zero (whole 0)"
  by code_simp

lemma plain_cell_cases:
  "plain_cell (dict_get f None) =
     (case f of Some (Some x) \<Rightarrow> if is_zero x then Text ''-'' else Str x | _ \<Rightarrow> Text ''-'')"
  by (simp add: plain_cell_def dict_get_def truthy_def split: option.split)

lemma rounded_cell_cases:
  "rounded_cell (dict_get f (Some (whole 0))) =
     (case f of Some (Some x) \<Rightarrow> if is_zero x then Text ''0'' else Str (py_round x 1)
      | _ \<Rightarrow> Text ''0'')"
  by (simp add: rounded_cell_def dict_get_def truthy_def whole_0_zero split: option.split)

text \<open>
  Claim C9, as the specification states it: a missing field is rendered as a marker
  and not as a numeric default, so that it can be told from a stored zero. The code
  differs: an entry without the key \<^verbatim>\<open>total_calories\<close> and an entry that stores 0
  there give the same report, and its calories cell is the text \<^verbatim>\<open>0\<close>.
\<close>

theorem missing_calories_counterexample:
  "generate_weekly_report
     [(''2024-01-01'', (get_entry [] ''2024-01-01'')\<lparr>total_calories := None\<rparr>)]
     ''2024-01-01'' ''2024-01-01'' =
   Inr (Some \<lparr>filename = ''weekly_report_2024-01-01_to_2024-01-01.pdf'',
              table_rows = [[Text ''2024-01-01'', Text ''-'', Text ''0'', Text ''0'', Text ''0'', Text ''-'']]\<rparr>) \<and>
   generate_weekly_report
     [(''2024-01-01'', (get_entry [] ''2024-01-01'')\<lparr>total_calories := Some (Some (whole 0))\<rparr>)]
     ''2024-01-01'' ''2024-01-01'' =
   Inr (Some \<lparr>filename = ''weekly_report_2024-01-01_to_2024-01-01.pdf'',
              table_rows = [[Text ''2024-01-01'', Text ''-'', Text ''0'', Text ''0'', Text ''0'', Text ''-'']]\<rparr>)"
  by code_simp

text \<open>
  Claim C9, amended. Whenever the columns can be collected (every entry has its date),
  the rows are one per entry, in the entries' order, with the entry's date passed
  through. The weight and BMI cells are the marker \<^verbatim>\<open>-\<close> when the field is missing,
  null or zero, and the stored value otherwise. The calories, protein and net-calories
  cells are the numeric default \<^verbatim>\<open>0\<close> when the field is missing, null or zero, and the
  stored value rounded to 1 decimal otherwise. A missing value is therefore rendered as
  a stored zero is.
\<close>

theorem summary_rows_defaults:
  assumes "summary_columns entries = Inr cols"
  shows "map date entries = map (Some \<circ> fst) cols \<and>
         map report_row cols =
           map (\<lambda>e. [Text (dict_get (date e) []),
                      (case weight e of
                         Some (Some x) \<Rightarrow> if is_zero x then Text ''-'' else Str x
                       | _ \<Rightarrow> Text ''-''),
                      (case total_calories e of
                         Some (Some x) \<Rightarrow> if is_zero x then Text ''0'' else Str (py_round x 1)
                       | _ \<Rightarrow> Text ''0''),
                      (case total_protein e of
                         Some (Some x) \<Rightarrow> if is_zero x then Text ''0'' else Str (py_round x 1)
                       | _ \<Rightarrow> Text ''0''),
                      (case net_calories e of
                         Some (Some x) \<Rightarrow> if is_zero x then Text ''0'' else Str (py_round x 1)
                       | _ \<Rightarrow> Text ''0''),
                      (case bmi e of
                         Some (Some x) \<Rightarrow> if is_zero x then Text ''-'' else Str x
                       | _ \<Rightarrow> Text ''-'')]) entries"
  using summary_columns_rows [OF assms]
  by (simp only: plain_cell_cases rounded_cell_cases)

theorem summary_rows_defaults_witness:
  "summary_columns
     [(get_entry [] ''2024-01-01'')\<lparr>weight := Some (Some (whole 70)), total_calories := None\<rparr>] =
     Inr [(''2024-01-01'', Some (whole 70), Some (whole 0), Some (whole 0), Some (whole 0), None)] \<and>
   map report_row
     [(''2024-01-01'', Some (whole 70), Some (whole 0), Some (whole 0), Some (whole 0), None)] =
     [[Text ''2024-01-01'', Str (whole 70), Text ''0'', Text ''0'', Text ''0'', Text ''-'']]"
proof -
  have c: "summary_columns
     [(get_entry [] ''2024-01-01'')\<lparr>weight := Some (Some (whole 70)), total_calories := None\<rparr>] =
     Inr [(''2024-01-01'', Some (whole 70), Some (whole 0), Some (whole 0), Some (whole 0), None)]"
    by (simp add: get_entry_def dict_get_def)
  have nz: "\<not> is_zero (whole 70)"
    by code_simp
  from summary_rows_defaults [OF c] c nz show ?thesis
    by (simp add: get_entry_def dict_get_def whole_0_zero)
qed

section \<open>The order of the report's rows\<close>

lemma filtered_dates_sorted:
  "sorted (filtered_dates data seven_days_ago today_str) \<and>
   set (filtered_dates data seven_days_ago today_str) =
     {d \<in> fst ` set data. seven_days_ago \<le> d \<and> d \<le> today_str}"
  by (auto simp: filtered_dates_def)

lemma report_entries_store_order:
  "report_entries data start_date end_date =
     map snd [p \<leftarrow> data. start_date \<le> fst p \<and> fst p \<le> end_date]"
  unfolding report_entries_def
  by (induction data) auto

lemma report_entries_sorted_store:
  "sorted (map fst data) \<Longrightarrow>
     sorted (map fst [p \<leftarrow> data. start_date \<le> fst p \<and> fst p \<le> end_date])"
  by (rule sorted_filter)

text \<open>
  Claim C2. The selection keeps exactly the entries whose key lies between the bounds,
  both included, but in the store's order, which is the order of the saves: it is
  ascending only when the store is. Ten days saved from 2024-01-10 down to 2024-01-01
  and a report for 2024-01-03 to 2024-01-05 give the three rows for the 5th, the 4th
  and the 3rd, in that order.
\<close>

theorem report_rows_in_insertion_order:
  "\<not> isl (save_days [] [''2024-01-10'', ''2024-01-09'', ''2024-01-08'', ''2024-01-07'',
                         ''2024-01-06'', ''2024-01-05'', ''2024-01-04'', ''2024-01-03'',
                         ''2024-01-02'', ''2024-01-01'']) \<and>
   generate_weekly_report
     (projr (save_days [] [''2024-01-10'', ''2024-01-09'', ''2024-01-08'', ''2024-01-07'',
                           ''2024-01-06'', ''2024-01-05'', ''2024-01-04'', ''2024-01-03'',
                           ''2024-01-02'', ''2024-01-01'']))
     ''2024-01-03'' ''2024-01-05'' =
   Inr (Some \<lparr>filename = ''weekly_report_2024-01-03_to_2024-01-05.pdf'',
     table_rows =
       [[Text ''2024-01-05'', Str (whole 70), Text ''0'', Text ''0'', Text ''0'', Str (decimal 2422 2)],
        [Text ''2024-01-04'', Str (whole 70), Text ''0'', Text ''0'', Text ''0'', Str (decimal 2422 2)],
        [Text ''2024-01-03'', Str (whole 70), Text ''0'', Text ''0'', Text ''0'', Str (decimal 2422 2)]]\<rparr>)"
  by code_simp

end
